theory Spec2Isabelle
  imports Main
begin

section \<open>The NTN dongle firmware updater (ntn\_dongle\_fw\_update.py)\<close>

text \<open>
  The script drives a Modbus device through a fixed sequence of register writes and then
  starts the external image transfer (pymdfu). Everything it does is an effect on the
  outside world: opening the serial port, Modbus requests, sleeps, log lines, child
  processes. The model makes these explicit:
  \<^item> the world is the chronological list of the effects performed so far (\<open>event list\<close>);
  \<^item> what the outside answers (the Modbus library, the operating system, the child
    process) is a parameter \<open>env\<close>: each answer may depend on the whole history;
  \<^item> a Python function is a function from the world to a result and the new world,
    the result being \<open>Inl\<close> of the exception raised or \<open>Inr\<close> of the value returned.
\<close>

subsection \<open>Exceptions\<close>

text \<open>
  Instances of Python's \<open>Exception\<close>. The constructors are the classes the script raises
  or names in a handler, and the UnicodeDecodeError of a text-mode pipe; \<open>OtherError\<close>
  stands for every other subclass of \<open>Exception\<close> (a serial.SerialException, a Modbus
  timeout, an OSError). Asynchronous interrupts
  (KeyboardInterrupt, SystemExit), which are not \<open>Exception\<close>s, are outside the model.
\<close>

datatype exc =
    ValueError string
  | RuntimeError string
  | CalledProcessError int "string list"
  | ModbusError int
  | TimeoutExpired
  | FileNotFoundError
  | IndexError
  | UnicodeDecodeError
  | OtherError string

fun is_ModbusError :: "exc \<Rightarrow> bool" where
  "is_ModbusError (ModbusError _) = True"
| "is_ModbusError _ = False"

fun get_exception_code :: "exc \<Rightarrow> int" where
  "get_exception_code (ModbusError c) = c"
| "get_exception_code _ = 0"

subsection \<open>Requests, log messages and events\<close>

text \<open>
  The function codes of modbus\_tk.defines that the script names, by name; any other code
  a caller of the read operations may pass is \<open>FunctionCode n\<close>.
\<close>

datatype function_code =
    READ_INPUT_REGISTERS
  | WRITE_SINGLE_REGISTER
  | WRITE_MULTIPLE_REGISTERS
  | FunctionCode int

text \<open>The \<open>output_value\<close> of a write: an integer or a tuple of integers.\<close>

datatype output_value = PInt int | PTuple "int list"

text \<open>
  A call \<open>master.execute(slave, function_code, starting_address, ...)\<close>: a read passes the
  quantity as fourth argument, a write passes \<open>output_value\<close>.
\<close>

datatype request =
    ReadReq int function_code int int
  | WriteReq int function_code int output_value

text \<open>The arguments of \<open>serial.Serial\<close>: port, baudrate, bytesize, parity, stopbits, xonxoff.\<close>

record serial_cfg =
  cfg_port :: string
  cfg_baudrate :: int
  cfg_bytesize :: int
  cfg_parity :: string
  cfg_stopbits :: int
  cfg_xonxoff :: int

text \<open>What \<open>find_pymdfu_executable\<close> returns: a path (a string) or an argument list.\<close>

datatype pymdfu_cmd = CmdStr string | CmdList "string list"

text \<open>
  The log messages of the script, one constructor per logging call, holding the values
  the message interpolates (the formatting of the text itself is not modelled).
\<close>

datatype log_msg =
    MsgInit
  | MsgModbusError exc int
  | MsgExc exc
  | MsgClosed
  | MsgCloseError exc
  | MsgPasswordValid bool
  | MsgRetry
  | MsgUsing pymdfu_cmd
  | MsgLine string

datatype log_level = Info | Error

text \<open>
  The effects, each with the outside's answer where there is one. \<open>EvPopen\<close> is the
  start of the child (\<open>None\<close> when it could be started); \<open>EvStdoutEnd\<close> is the end of the
  iteration over \<open>process.stdout\<close>: the pipe is exhausted (\<open>None\<close>) or reading it raised;
  \<open>EvWait\<close> is \<open>process.wait()\<close> with the exit status it returns; \<open>EvSleep\<close> is in
  milliseconds.
\<close>

datatype event =
    EvSerialOpen serial_cfg "exc option"
  | EvSetTimeout int
  | EvSetVerbose bool
  | EvExecute request "exc + int list"
  | EvMasterClose "exc option"
  | EvSleep nat
  | EvLog log_level log_msg
  | EvRun "string list" "exc + int"
  | EvPopen "string list" "exc option"
  | EvStdoutEnd "exc option"
  | EvWait int

type_synonym world = "event list"

subsection \<open>The environment\<close>

text \<open>
  The libraries and the operating system, which are not part of the repository:
  \<^item> \<open>serial_open\<close>: \<open>modbus_rtu.RtuMaster(serial.Serial(...))\<close>, \<open>None\<close> when it succeeds
    (\<open>set_timeout\<close> and \<open>set_verbose\<close> store a value and are recorded as events);
  \<^item> \<open>transport_execute\<close>: \<open>master.execute\<close>, the values read or the exception raised;
  \<^item> \<open>master_close\<close>: \<open>master.close()\<close>;
  \<^item> \<open>which\<close>, \<open>platform\<close>, \<open>executable\<close>, \<open>path_dirname\<close>, \<open>path_join\<close>, \<open>path_exists\<close>:
    \<open>shutil.which\<close>, \<open>sys.platform\<close>, \<open>sys.executable\<close> and \<open>os.path\<close>;
  \<^item> \<open>subprocess_run\<close>: \<open>subprocess.run\<close>, the return code or the exception raised;
  \<^item> \<open>subprocess_popen\<close>: \<open>subprocess.Popen\<close>, \<open>None\<close> when the child is started, or the
    exception raised when it cannot be;
  \<^item> \<open>child_stdout\<close>: what iterating over the text-mode pipe \<open>process.stdout\<close> yields: the
    lines it decodes and then, when the read raises (a UnicodeDecodeError on bytes that
    do not decode), the exception; \<open>None\<close> when the pipe is read to its end;
  \<^item> \<open>process_wait\<close>: \<open>process.wait()\<close>, the exit status of the child.
  The child is one that closes its output and exits: a child that never does is outside
  the model.
\<close>

record env =
  serial_open :: "world \<Rightarrow> serial_cfg \<Rightarrow> exc option"
  transport_execute :: "world \<Rightarrow> request \<Rightarrow> exc + int list"
  master_close :: "world \<Rightarrow> exc option"
  which :: "string \<Rightarrow> string option"
  platform :: string
  executable :: string
  path_dirname :: "string \<Rightarrow> string"
  path_join :: "string \<Rightarrow> string \<Rightarrow> string"
  path_exists :: "string \<Rightarrow> bool"
  subprocess_run :: "world \<Rightarrow> string list \<Rightarrow> exc + int"
  subprocess_popen :: "world \<Rightarrow> string list \<Rightarrow> exc option"
  child_stdout :: "world \<Rightarrow> string list \<times> exc option"
  process_wait :: "world \<Rightarrow> int"

subsection \<open>Programs: state passing with exceptions\<close>

type_synonym 'a prog = "world \<Rightarrow> (exc + 'a) \<times> world"

definition return_val :: "'a \<Rightarrow> 'a prog" where
  "return_val x w = (Inr x, w)"

definition raise_exc :: "exc \<Rightarrow> 'a prog" where
  "raise_exc e w = (Inl e, w)"

text \<open>Sequencing: an exception of the first part skips the second.\<close>

definition and_then :: "'a prog \<Rightarrow> ('a \<Rightarrow> 'b prog) \<Rightarrow> 'b prog" where
  "and_then m f w = (case m w of (Inl e, w') \<Rightarrow> (Inl e, w') | (Inr x, w') \<Rightarrow> f x w')"

text \<open>\<open>try: m  except Exception as e: h e\<close>.\<close>

definition try_except :: "'a prog \<Rightarrow> (exc \<Rightarrow> 'a prog) \<Rightarrow> 'a prog" where
  "try_except m h w = (case m w of (Inl e, w') \<Rightarrow> h e w' | (Inr x, w') \<Rightarrow> (Inr x, w'))"

definition emit :: "event \<Rightarrow> unit prog" where
  "emit ev w = (Inr (), w @ [ev])"

definition log_info :: "log_msg \<Rightarrow> unit prog" where
  "log_info m = emit (EvLog Info m)"

definition log_error :: "log_msg \<Rightarrow> unit prog" where
  "log_error m = emit (EvLog Error m)"

definition sleep :: "nat \<Rightarrow> unit prog" where
  "sleep ms = emit (EvSleep ms)"

subsection \<open>The library calls, as effects\<close>

definition Serial_RtuMaster :: "env \<Rightarrow> serial_cfg \<Rightarrow> unit prog" where
  "Serial_RtuMaster E cfg w =
     (let out = serial_open E w cfg in
      (case out of Some e \<Rightarrow> Inl e | None \<Rightarrow> Inr (), w @ [EvSerialOpen cfg out]))"

definition master_execute :: "env \<Rightarrow> request \<Rightarrow> int list prog" where
  "master_execute E req w =
     (let out = transport_execute E w req in (out, w @ [EvExecute req out]))"

definition master_close_call :: "env \<Rightarrow> unit prog" where
  "master_close_call E w =
     (let out = master_close E w in
      (case out of Some e \<Rightarrow> Inl e | None \<Rightarrow> Inr (), w @ [EvMasterClose out]))"

definition run_call :: "env \<Rightarrow> string list \<Rightarrow> int prog" where
  "run_call E cmd w =
     (let out = subprocess_run E w cmd in (out, w @ [EvRun cmd out]))"

definition Popen :: "env \<Rightarrow> string list \<Rightarrow> unit prog" where
  "Popen E cmd w =
     (let out = subprocess_popen E w cmd in
      (case out of Some e \<Rightarrow> Inl e | None \<Rightarrow> Inr (), w @ [EvPopen cmd out]))"

definition process_wait_call :: "env \<Rightarrow> int prog" where
  "process_wait_call E w = (let rc = process_wait E w in (Inr rc, w @ [EvWait rc]))"

subsection \<open>class NTNModbusMaster\<close>

text \<open>
  The object: its slave address and its \<open>master\<close> attribute (the connection, named by
  the configuration it was opened with; \<open>None\<close> when the attribute is missing or falsy).
\<close>

record ntn =
  slave_addr :: int
  master :: "serial_cfg option"

text \<open>
  \<open>__init__\<close> (lines 71-90), with bytesize, parity, stopbits and xonxoff at their
  defaults, as the one caller leaves them: only a ModbusError is caught, logged and
  raised again; any other exception of the constructor leaves the function as it is.
\<close>

definition NTNModbusMaster :: "env \<Rightarrow> int \<Rightarrow> string \<Rightarrow> int \<Rightarrow> ntn prog" where
  "NTNModbusMaster E slave_address port baudrate =
     (let cfg = \<lparr>cfg_port = port, cfg_baudrate = baudrate, cfg_bytesize = 8,
                 cfg_parity = ''N'', cfg_stopbits = 1, cfg_xonxoff = 0\<rparr> in
      try_except
        (and_then (Serial_RtuMaster E cfg) (\<lambda>_.
         and_then (emit (EvSetTimeout 1)) (\<lambda>_.
         and_then (emit (EvSetVerbose False)) (\<lambda>_.
         and_then (log_info MsgInit) (\<lambda>_.
         return_val \<lparr>slave_addr = slave_address, master = Some cfg\<rparr>)))))
        (\<lambda>e. if is_ModbusError e
              then and_then (log_error (MsgModbusError e (get_exception_code e))) (\<lambda>_.
                   raise_exc e)
              else raise_exc e))"

text \<open>\<open>value[0]\<close>: an IndexError on an empty tuple.\<close>

definition subscript0 :: "int list \<Rightarrow> int prog" where
  "subscript0 vs = (case vs of [] \<Rightarrow> raise_exc IndexError | v # _ \<Rightarrow> return_val v)"

text \<open>\<open>read_register\<close> (lines 92-98).\<close>

definition read_register :: "env \<Rightarrow> ntn \<Rightarrow> int \<Rightarrow> function_code \<Rightarrow> int option prog" where
  "read_register E self reg functioncode =
     try_except
       (and_then (master_execute E (ReadReq (slave_addr self) functioncode reg 1)) (\<lambda>val.
        and_then (subscript0 val) (\<lambda>v0.
        if v0 \<noteq> 0 then and_then (subscript0 val) (\<lambda>v. return_val (Some v))
        else return_val None)))
       (\<lambda>e. and_then (log_info (MsgExc e)) (\<lambda>_. return_val None))"

text \<open>\<open>read_registers\<close> (lines 100-106).\<close>

definition read_registers ::
  "env \<Rightarrow> ntn \<Rightarrow> int \<Rightarrow> int \<Rightarrow> function_code \<Rightarrow> int list option prog" where
  "read_registers E self reg num functioncode =
     try_except
       (and_then (master_execute E (ReadReq (slave_addr self) functioncode reg num)) (\<lambda>vals.
        return_val (if \<not> list_all (\<lambda>x. x = 0) vals then Some vals else None)))
       (\<lambda>e. and_then (log_info (MsgExc e)) (\<lambda>_. return_val None))"

text \<open>\<open>set_registers\<close> (lines 108-116); \<open>val\<close> is \<open>None\<close> or a tuple.\<close>

definition set_registers :: "env \<Rightarrow> ntn \<Rightarrow> int \<Rightarrow> int list option \<Rightarrow> bool prog" where
  "set_registers E self reg val =
     try_except
       (case val of
          Some vs \<Rightarrow>
            and_then (master_execute E
              (WriteReq (slave_addr self) WRITE_MULTIPLE_REGISTERS reg (PTuple vs))) (\<lambda>_.
            return_val True)
        | None \<Rightarrow> return_val False)
       (\<lambda>e. and_then (log_info (MsgExc e)) (\<lambda>_. return_val False))"

text \<open>\<open>set_register\<close> (lines 118-126); \<open>val\<close> is \<open>None\<close> or an integer.\<close>

definition set_register :: "env \<Rightarrow> ntn \<Rightarrow> int \<Rightarrow> int option \<Rightarrow> bool prog" where
  "set_register E self reg val =
     try_except
       (case val of
          Some v \<Rightarrow>
            and_then (master_execute E
              (WriteReq (slave_addr self) WRITE_SINGLE_REGISTER reg (PInt v))) (\<lambda>_.
            return_val True)
        | None \<Rightarrow> return_val False)
       (\<lambda>e. and_then (log_info (MsgExc e)) (\<lambda>_. return_val False))"

text \<open>\<open>close\<close> (lines 128-135).\<close>

definition close :: "env \<Rightarrow> ntn \<Rightarrow> unit prog" where
  "close E self =
     try_except
       (case master self of
          Some _ \<Rightarrow> and_then (master_close_call E) (\<lambda>_. log_info MsgClosed)
        | None \<Rightarrow> return_val ())
       (\<lambda>e. log_error (MsgCloseError e))"

subsection \<open>find\_pymdfu\_executable (lines 27-62)\<close>

text \<open>
  The probe \<open>subprocess.run([sys.executable, '-m', 'pymdfu', '--help'], ...)\<close> is tried
  last; of its exceptions only TimeoutExpired, CalledProcessError and FileNotFoundError
  are caught. A path is truthy when it is not the empty string.
\<close>

fun probe_caught :: "exc \<Rightarrow> bool" where
  "probe_caught TimeoutExpired = True"
| "probe_caught (CalledProcessError _ _) = True"
| "probe_caught FileNotFoundError = True"
| "probe_caught _ = False"

text \<open>\<open>if pymdfu_path: return pymdfu_path\<close>, and otherwise the rest of the function.\<close>

definition return_if_found :: "string option \<Rightarrow> pymdfu_cmd prog \<Rightarrow> pymdfu_cmd prog" where
  "return_if_found pymdfu_path rest =
     (case pymdfu_path of
        None \<Rightarrow> rest
      | Some p \<Rightarrow> if p \<noteq> [] then return_val (CmdStr p) else rest)"

text \<open>Lines 51-62: the probe and the last resort.\<close>

definition probe_module :: "env \<Rightarrow> pymdfu_cmd prog" where
  "probe_module E =
     and_then
       (try_except
          (and_then (run_call E [executable E, ''-m'', ''pymdfu'', ''--help'']) (\<lambda>returncode.
           return_val (if returncode = 0
                       then Some (CmdList [executable E, ''-m'', ''pymdfu''])
                       else None)))
          (\<lambda>e. if probe_caught e then return_val None else raise_exc e))
       (\<lambda>found. case found of
            Some cmd \<Rightarrow> return_val cmd
          | None \<Rightarrow> return_val (CmdStr ''pymdfu''))"

text \<open>Lines 40-49: the Scripts directory, looked at on Windows only.\<close>

definition scripts_lookup :: "env \<Rightarrow> pymdfu_cmd prog" where
  "scripts_lookup E =
     (if platform E = ''win32'' then
        (let python_scripts = path_join E (path_dirname E (executable E)) ''Scripts'';
             pymdfu_exe = path_join E python_scripts ''pymdfu.exe'';
             pymdfu_script = path_join E python_scripts ''pymdfu''
         in if path_exists E pymdfu_exe then return_val (CmdStr pymdfu_exe)
            else if path_exists E pymdfu_script then return_val (CmdStr pymdfu_script)
            else probe_module E)
      else probe_module E)"

definition find_pymdfu_executable :: "env \<Rightarrow> pymdfu_cmd prog" where
  "find_pymdfu_executable E =
     return_if_found (which E ''pymdfu'')
       (if platform E = ''win32''
        then return_if_found (which E ''pymdfu.exe'') (scripts_lookup E)
        else scripts_lookup E)"

subsection \<open>run\_firmware\_update (lines 137-209)\<close>

text \<open>
  The parsed command line; \<open>image_path\<close> is \<open>args.image\<close> (the empty string when
  \<open>--image\<close> is not given).
\<close>

record args =
  image_path :: string
  port :: string
  dev_id :: int
  retry :: bool

text \<open>
  \<open>line.rstrip()\<close>: Python's white space among the characters of an 8-bit string.
\<close>

definition is_space :: "char \<Rightarrow> bool" where
  "is_space c = (of_char c \<in> {9::nat, 10, 11, 12, 13, 28, 29, 30, 31, 32, 133, 160})"

definition rstrip :: "string \<Rightarrow> string" where
  "rstrip s = rev (dropWhile is_space (rev s))"

text \<open>
  The loop \<open>for line in process.stdout: logger.info(line.rstrip())\<close> (lines 204-205): each
  line the pipe yields is logged; then the iteration ends, at the end of the output or
  with the exception of the read, which nothing catches.
\<close>

fun log_lines :: "string list \<Rightarrow> unit prog" where
  "log_lines [] = return_val ()"
| "log_lines (line # rest) = and_then (log_info (MsgLine (rstrip line))) (\<lambda>_. log_lines rest)"

definition relay_stdout :: "env \<Rightarrow> unit prog" where
  "relay_stdout E w =
     (let (lines, failure) = child_stdout E w in
      and_then (log_lines lines) (\<lambda>_.
      case failure of
        Some e \<Rightarrow> and_then (emit (EvStdoutEnd (Some e))) (\<lambda>_. raise_exc e)
      | None \<Rightarrow> emit (EvStdoutEnd None))) w"

text \<open>
  Lines 142-170: the Modbus part of a fresh attempt, or the settle delay of a retry.
  The delays are in milliseconds.
\<close>

definition modbus_phase :: "env \<Rightarrow> args \<Rightarrow> unit prog" where
  "modbus_phase E a =
     (if \<not> retry a then
        and_then (NTNModbusMaster E (dev_id a) (port a) 115200) (\<lambda>ntn_dongle.
        and_then (set_registers E ntn_dongle 0x0000 (Some [0, 0, 0, 0])) (\<lambda>valid_passwd.
        and_then (log_info (MsgPasswordValid valid_passwd)) (\<lambda>_.
        if \<not> valid_passwd
        then raise_exc (RuntimeError ''Failed to set password or password invalid.'')
        else
          and_then (set_register E ntn_dongle 0xFFD0 (Some 0xAA55)) (\<lambda>_.
          and_then (set_register E ntn_dongle 0xD000 (Some 0xAA55)) (\<lambda>_.
          and_then (set_register E ntn_dongle 0xFD00 (Some 0xAA55)) (\<lambda>_.
          and_then (sleep 1000) (\<lambda>_.
          and_then (close E ntn_dongle) (\<lambda>_.
          sleep 500))))))))
      else
        and_then (log_info MsgRetry) (\<lambda>_.
        sleep 500))"

text \<open>Lines 177-194: the argument list, for both shapes of the resolved command.\<close>

definition build_command :: "pymdfu_cmd \<Rightarrow> args \<Rightarrow> string list" where
  "build_command pymdfu_cmd a =
     (case pymdfu_cmd of
        CmdList l \<Rightarrow>
          l @ [''update'', ''--tool'', ''serial'', ''--port'', port a,
               ''--baudrate'', ''115200'', ''--image'', image_path a, ''-v'', ''debug'']
      | CmdStr s \<Rightarrow>
          [s, ''update'', ''--tool'', ''serial'', ''--port'', port a,
           ''--baudrate'', ''115200'', ''--image'', image_path a, ''-v'', ''debug''])"

text \<open>
  Lines 172-209: resolve the command, start the child, relay its output, and only then
  wait for it and check its status.
\<close>

definition transfer_phase :: "env \<Rightarrow> args \<Rightarrow> unit prog" where
  "transfer_phase E a =
     and_then (find_pymdfu_executable E) (\<lambda>pymdfu_cmd.
     and_then (log_info (MsgUsing pymdfu_cmd)) (\<lambda>_.
     let command = build_command pymdfu_cmd a in
     and_then (Popen E command) (\<lambda>process.
     and_then (relay_stdout E) (\<lambda>_.
     and_then (process_wait_call E) (\<lambda>return_code.
     if return_code \<noteq> 0 then raise_exc (CalledProcessError return_code command)
     else return_val ())))))"

definition run_firmware_update :: "env \<Rightarrow> args \<Rightarrow> unit prog" where
  "run_firmware_update E a =
     (if image_path a = [] then raise_exc (ValueError ''Missing firmware image file path'')
      else and_then (modbus_phase E a) (\<lambda>_. transfer_phase E a))"

subsection \<open>Observing a run\<close>

text \<open>The Modbus requests among some events, in the order they were made.\<close>

fun requests_of :: "event list \<Rightarrow> request list" where
  "requests_of [] = []"
| "requests_of (EvExecute req out # es) = req # requests_of es"
| "requests_of (_ # es) = requests_of es"

text \<open>The events on the device's channel: opening, configuring, requests, closing.\<close>

fun is_device_event :: "event \<Rightarrow> bool" where
  "is_device_event (EvSerialOpen _ _) = True"
| "is_device_event (EvSetTimeout _) = True"
| "is_device_event (EvSetVerbose _) = True"
| "is_device_event (EvExecute _ _) = True"
| "is_device_event (EvMasterClose _) = True"
| "is_device_event _ = False"

fun is_close :: "event \<Rightarrow> bool" where
  "is_close (EvMasterClose _) = True"
| "is_close _ = False"

text \<open>The child processes: the probe of the resolver and the transfer itself.\<close>

fun is_subprocess :: "event \<Rightarrow> bool" where
  "is_subprocess (EvRun _ _) = True"
| "is_subprocess (EvPopen _ _) = True"
| "is_subprocess (EvStdoutEnd _) = True"
| "is_subprocess (EvWait _) = True"
| "is_subprocess _ = False"

fun is_popen :: "event \<Rightarrow> bool" where
  "is_popen (EvPopen _ _) = True"
| "is_popen _ = False"

fun is_run :: "event \<Rightarrow> bool" where
  "is_run (EvRun _ _) = True"
| "is_run _ = False"


text \<open>What a write operation logs for the answer of the transport, and what it returns.\<close>

definition fault_log :: "exc + 'a \<Rightarrow> event list" where
  "fault_log out = (case out of Inl e \<Rightarrow> [EvLog Info (MsgExc e)] | Inr _ \<Rightarrow> [])"

definition accepted :: "exc + 'a \<Rightarrow> bool" where
  "accepted out = (case out of Inl _ \<Rightarrow> False | Inr _ \<Rightarrow> True)"


text \<open>The four requests of the unlock sequence, for the device address \<open>d\<close>.\<close>

definition password_clear :: "int \<Rightarrow> request" where
  "password_clear d = WriteReq d WRITE_MULTIPLE_REGISTERS 0x0000 (PTuple [0, 0, 0, 0])"

definition engineering_mode :: "int \<Rightarrow> request" where
  "engineering_mode d = WriteReq d WRITE_SINGLE_REGISTER 0xFFD0 (PInt 0xAA55)"

definition bootloader_mode :: "int \<Rightarrow> request" where
  "bootloader_mode d = WriteReq d WRITE_SINGLE_REGISTER 0xD000 (PInt 0xAA55)"

definition reset_mcu :: "int \<Rightarrow> request" where
  "reset_mcu d = WriteReq d WRITE_SINGLE_REGISTER 0xFD00 (PInt 0xAA55)"

text \<open>
  \<open>only P m\<close>: whatever the world, \<open>m\<close> only adds events, and each of them satisfies \<open>P\<close>.
\<close>

definition only :: "(event \<Rightarrow> bool) \<Rightarrow> 'a prog \<Rightarrow> bool" where
  "only P m = (\<forall>w. \<exists>es. snd (m w) = w @ es \<and> list_all P es)"

text \<open>The connection parameters of \<open>__init__\<close>, and the world once the connection is set up.\<close>

definition the_cfg :: "string \<Rightarrow> int \<Rightarrow> serial_cfg" where
  "the_cfg p b = \<lparr>cfg_port = p, cfg_baudrate = b, cfg_bytesize = 8,
                 cfg_parity = ''N'', cfg_stopbits = 1, cfg_xonxoff = 0\<rparr>"

definition connected :: "args \<Rightarrow> world \<Rightarrow> world" where
  "connected a w = w @ [EvSerialOpen (the_cfg (port a) 115200) None, EvSetTimeout 1,
      EvSetVerbose False, EvLog Info MsgInit]"


subsection \<open>A simulated environment\<close>

text \<open>
  A Linux host with pymdfu on the path, a port that opens and closes, a device whose
  answer to a request is given by \<open>answer\<close>, and a transfer process that prints the
  lines and exits with the status that \<open>child\<close> gives. The devices: one that accepts everything, one that never
  answers, one that accepts the password block only, and one with readable registers
  (register 0 reads zero, register 1 reads 7, any other read is refused).
\<close>

definition accept_all :: "request \<Rightarrow> exc + int list" where
  "accept_all req = Inr []"

definition reject_all :: "request \<Rightarrow> exc + int list" where
  "reject_all req = Inl (OtherError ''no response'')"

fun password_only :: "request \<Rightarrow> exc + int list" where
  "password_only (WriteReq _ WRITE_MULTIPLE_REGISTERS _ _) = Inr []"
| "password_only _ = Inl (ModbusError 2)"

fun registers :: "request \<Rightarrow> exc + int list" where
  "registers (ReadReq _ _ reg num) =
     (if reg = 0 then Inr (replicate (nat num) 0)
      else if reg = 1 then Inr (replicate (nat num) 7)
      else Inl (ModbusError 2))"
| "registers (WriteReq _ _ _ _) = Inr []"

definition sim :: "(request \<Rightarrow> exc + int list) \<Rightarrow> string list \<times> int \<Rightarrow> env" where
  "sim answer child =
     \<lparr>serial_open = (\<lambda>w cfg. None),
      transport_execute = (\<lambda>w req. answer req),
      master_close = (\<lambda>w. None),
      which = (\<lambda>name. if name = ''pymdfu'' then Some ''/usr/bin/pymdfu'' else None),
      platform = ''linux'',
      executable = ''/usr/bin/python3'',
      path_dirname = (\<lambda>p. ''/usr/bin''),
      path_join = (\<lambda>p q. p @ ''/'' @ q),
      path_exists = (\<lambda>p. False),
      subprocess_run = (\<lambda>w cmd. Inr 0),
      subprocess_popen = (\<lambda>w cmd. None),
      child_stdout = (\<lambda>w. (fst child, None)),
      process_wait = (\<lambda>w. snd child)\<rparr>"


definition fw_args :: "bool \<Rightarrow> args" where
  "fw_args r = \<lparr>image_path = ''fw.bin'', port = ''/dev/ttyUSB0'', dev_id = 1, retry = r\<rparr>"

definition dongle :: ntn where
  "dongle = \<lparr>slave_addr = 1, master = Some (the_cfg ''/dev/ttyUSB0'' 115200)\<rparr>"

section \<open>Programs only add events\<close>

lemma only_return [simp]: "only P (return_val x)"
  by (simp add: only_def return_val_def)

lemma only_raise [simp]: "only P (raise_exc e)"
  by (simp add: only_def raise_exc_def)

lemma only_emit: "P ev \<Longrightarrow> only P (emit ev)"
  by (simp add: only_def emit_def)

lemma only_and_then:
  assumes "only P m" and "\<And>x. only P (f x)"
  shows "only P (and_then m f)"
proof (unfold only_def, rule allI)
  fix w
  from assms(1) obtain es where m: "snd (m w) = w @ es" "list_all P es"
    unfolding only_def by blast
  show "\<exists>es. snd (and_then m f w) = w @ es \<and> list_all P es"
  proof (cases "m w")
    case (Pair r w1)
    with m have w1: "w1 = w @ es" by simp
    show ?thesis
    proof (cases r)
      case (Inl e)
      with Pair w1 m show ?thesis by (simp add: and_then_def)
    next
      case (Inr x)
      from assms(2)[of x] obtain es' where "snd (f x w1) = w1 @ es'" "list_all P es'"
        unfolding only_def by blast
      with Pair Inr w1 m show ?thesis by (simp add: and_then_def)
    qed
  qed
qed

lemma only_try_except:
  assumes "only P m" and "\<And>e. only P (h e)"
  shows "only P (try_except m h)"
proof (unfold only_def, rule allI)
  fix w
  from assms(1) obtain es where m: "snd (m w) = w @ es" "list_all P es"
    unfolding only_def by blast
  show "\<exists>es. snd (try_except m h w) = w @ es \<and> list_all P es"
  proof (cases "m w")
    case (Pair r w1)
    with m have w1: "w1 = w @ es" by simp
    show ?thesis
    proof (cases r)
      case (Inr x)
      with Pair w1 m show ?thesis by (simp add: try_except_def)
    next
      case (Inl e)
      from assms(2)[of e] obtain es' where "snd (h e w1) = w1 @ es'" "list_all P es'"
        unfolding only_def by blast
      with Pair Inl w1 m show ?thesis by (simp add: try_except_def)
    qed
  qed
qed

lemma only_run_call: "(\<And>out. P (EvRun cmd out)) \<Longrightarrow> only P (run_call E cmd)"
  by (simp add: only_def run_call_def Let_def)

lemma only_Popen: "(\<And>out. P (EvPopen cmd out)) \<Longrightarrow> only P (Popen E cmd)"
  by (simp add: only_def Popen_def Let_def)

lemma only_process_wait_call: "(\<And>rc. P (EvWait rc)) \<Longrightarrow> only P (process_wait_call E)"
  by (simp add: only_def process_wait_call_def Let_def)




lemma only_log_lines: "(\<And>m. P (EvLog Info m)) \<Longrightarrow> only P (log_lines ls)"
  by (induction ls) (auto intro!: only_and_then only_emit simp: log_info_def)

lemma log_lines_eq:
  "log_lines ls w = (Inr (), w @ map (\<lambda>l. EvLog Info (MsgLine (rstrip l))) ls)"
  by (induction ls arbitrary: w) (simp_all add: return_val_def and_then_def log_info_def emit_def)

lemma relay_stdout_eq:
  "relay_stdout E w =
     (case child_stdout E w of
        (lines, failure) \<Rightarrow>
          (case failure of Some e \<Rightarrow> Inl e | None \<Rightarrow> Inr (),
           w @ map (\<lambda>l. EvLog Info (MsgLine (rstrip l))) lines @ [EvStdoutEnd failure]))"
  by (simp add: relay_stdout_def and_then_def log_lines_eq emit_def raise_exc_def
      split: prod.splits option.splits)

lemma only_relay_stdout:
  "(\<And>m. P (EvLog Info m)) \<Longrightarrow> (\<And>out. P (EvStdoutEnd out)) \<Longrightarrow> only P (relay_stdout E)"
  by (auto simp: only_def relay_stdout_eq list_all_iff split: prod.splits)

text \<open>The resolver starts at most the probe: no device event and no transfer.\<close>

lemma only_probe_module: "only is_run (probe_module E)"
  unfolding probe_module_def
  by (intro only_and_then only_try_except only_run_call) (auto split: option.splits)

lemma only_find: "only is_run (find_pymdfu_executable E)"
  unfolding find_pymdfu_executable_def return_if_found_def scripts_lookup_def Let_def
  by (auto simp: only_probe_module split: option.splits)

lemma only_weaken: "only P m \<Longrightarrow> (\<And>e. P e \<Longrightarrow> Q e) \<Longrightarrow> only Q m"
  unfolding only_def by (metis list.pred_mono_strong)

text \<open>The transfer part never touches the device; the Modbus part starts no process.\<close>

lemma only_transfer_phase: "only (\<lambda>e. \<not> is_device_event e) (transfer_phase E a)"
  unfolding transfer_phase_def Let_def
  by (intro only_and_then only_weaken[OF only_find] only_Popen only_relay_stdout
        only_process_wait_call)
     (auto simp: log_info_def intro!: only_emit elim: is_run.elims)


lemma requests_of_append [simp]: "requests_of (xs @ ys) = requests_of xs @ requests_of ys"
  by (induction xs rule: requests_of.induct) simp_all

lemma requests_of_fault_log [simp]: "requests_of (fault_log out) = []"
  by (simp add: fault_log_def split: sum.splits)

lemma requests_of_quiet: "list_all (\<lambda>e. \<not> is_device_event e) es \<Longrightarrow> requests_of es = []"
  by (induction es rule: requests_of.induct) simp_all


lemma is_close_quiet: "list_all (\<lambda>e. \<not> is_device_event e) es \<Longrightarrow> \<not> list_ex is_close es"
  by (induction es) (auto elim: is_close.elims)

section \<open>What each operation does to the world\<close>

lemma set_register_Some:
  "set_register E self reg (Some v) w =
     (let req = WriteReq (slave_addr self) WRITE_SINGLE_REGISTER reg (PInt v);
          out = transport_execute E w req
      in (Inr (accepted out), w @ EvExecute req out # fault_log out))"
  by (simp add: set_register_def try_except_def and_then_def master_execute_def Let_def
      return_val_def log_info_def emit_def accepted_def fault_log_def split: sum.splits)

lemma set_registers_Some:
  "set_registers E self reg (Some vs) w =
     (let req = WriteReq (slave_addr self) WRITE_MULTIPLE_REGISTERS reg (PTuple vs);
          out = transport_execute E w req
      in (Inr (accepted out), w @ EvExecute req out # fault_log out))"
  by (simp add: set_registers_def try_except_def and_then_def master_execute_def Let_def
      return_val_def log_info_def emit_def accepted_def fault_log_def split: sum.splits)

lemma set_registers_True_iff:
  "fst (set_registers E obj reg (Some vs) w) = Inr True \<longleftrightarrow>
   accepted (transport_execute E w
     (WriteReq (slave_addr obj) WRITE_MULTIPLE_REGISTERS reg (PTuple vs)))"
  by (simp add: set_registers_Some Let_def)

lemma not_accepted: "\<not> accepted out \<Longrightarrow> \<exists>e. out = Inl e"
  by (cases out) (simp_all add: accepted_def)

lemma is_accepted: "accepted out \<Longrightarrow> \<exists>v. out = Inr v"
  by (cases out) (simp_all add: accepted_def)

lemma close_Some:
  "close E \<lparr>slave_addr = d, master = Some cfg\<rparr> w =
     (let out = master_close E w
      in (Inr (), w @ [EvMasterClose out,
            case out of None \<Rightarrow> EvLog Info MsgClosed
            | Some e \<Rightarrow> EvLog Error (MsgCloseError e)]))"
  by (simp add: close_def try_except_def and_then_def master_close_call_def Let_def
      return_val_def log_info_def log_error_def emit_def split: option.splits)

lemma NTNModbusMaster_cases:
  "NTNModbusMaster E d p b w =
     (case serial_open E w (the_cfg p b) of
        None \<Rightarrow> (Inr \<lparr>slave_addr = d, master = Some (the_cfg p b)\<rparr>,
                 w @ [EvSerialOpen (the_cfg p b) None, EvSetTimeout 1, EvSetVerbose False,
                      EvLog Info MsgInit])
      | Some e \<Rightarrow> (Inl e, w @ EvSerialOpen (the_cfg p b) (Some e) #
                 (if is_ModbusError e
                  then [EvLog Error (MsgModbusError e (get_exception_code e))] else [])))"
  by (simp add: NTNModbusMaster_def the_cfg_def try_except_def and_then_def
      Serial_RtuMaster_def Let_def return_val_def raise_exc_def log_info_def log_error_def
      emit_def split: option.splits)

lemma NTNModbusMaster_returns:
  assumes "NTNModbusMaster E d p b w = (Inr obj, w1)"
  shows "serial_open E w (the_cfg p b) = None"
    and "obj = \<lparr>slave_addr = d, master = Some (the_cfg p b)\<rparr>"
    and "w1 = w @ [EvSerialOpen (the_cfg p b) None, EvSetTimeout 1, EvSetVerbose False,
                    EvLog Info MsgInit]"
  using assms by (auto simp: NTNModbusMaster_cases split: option.splits)

subsection \<open>The paths through the Modbus part\<close>

lemma modbus_phase_retry:
  "retry a \<Longrightarrow> modbus_phase E a w = (Inr (), w @ [EvLog Info MsgRetry, EvSleep 500])"
  by (simp add: modbus_phase_def and_then_def log_info_def sleep_def emit_def)

lemma modbus_phase_unconnected:
  "\<not> retry a \<Longrightarrow> serial_open E w (the_cfg (port a) 115200) = Some e \<Longrightarrow>
   modbus_phase E a w = (Inl e, w @ EvSerialOpen (the_cfg (port a) 115200) (Some e) #
       (if is_ModbusError e then [EvLog Error (MsgModbusError e (get_exception_code e))]
        else []))"
  by (simp add: modbus_phase_def and_then_def NTNModbusMaster_cases)

lemma modbus_phase_rejected:
  "\<not> retry a \<Longrightarrow> serial_open E w (the_cfg (port a) 115200) = None \<Longrightarrow>
   transport_execute E (connected a w) (password_clear (dev_id a)) = Inl e \<Longrightarrow>
   modbus_phase E a w = (Inl (RuntimeError ''Failed to set password or password invalid.''),
     connected a w @ [EvExecute (password_clear (dev_id a)) (Inl e), EvLog Info (MsgExc e),
       EvLog Info (MsgPasswordValid False)])"
  by (simp add: modbus_phase_def and_then_def NTNModbusMaster_cases set_registers_Some
       connected_def password_clear_def accepted_def fault_log_def log_info_def emit_def
       raise_exc_def)

lemma modbus_phase_accepted:
  "\<not> retry a \<Longrightarrow> serial_open E w (the_cfg (port a) 115200) = None \<Longrightarrow>
   transport_execute E (connected a w) (password_clear (dev_id a)) = Inr vs \<Longrightarrow>
   \<exists>es. modbus_phase E a w = (Inr (), w @ es) \<and>
        requests_of es = [password_clear (dev_id a), engineering_mode (dev_id a),
                          bootloader_mode (dev_id a), reset_mcu (dev_id a)] \<and>
        list_ex is_close es \<and>
        requests_of (takeWhile (\<lambda>e. \<not> is_close e) es) =
          [password_clear (dev_id a), engineering_mode (dev_id a),
           bootloader_mode (dev_id a), reset_mcu (dev_id a)]"
  by (simp add: modbus_phase_def and_then_def NTNModbusMaster_cases set_registers_Some
       set_register_Some close_Some sleep_def Let_def
       connected_def password_clear_def engineering_mode_def bootloader_mode_def reset_mcu_def
       accepted_def fault_log_def log_info_def emit_def raise_exc_def
       split: option.splits sum.splits)

subsection \<open>The paths through the transfer part\<close>

lemma transfer_phase_cases:
  "transfer_phase E a w =
     (case find_pymdfu_executable E w of
        (Inl e, w1) \<Rightarrow> (Inl e, w1)
      | (Inr c, w1) \<Rightarrow>
          (let cmd = build_command c a;
               w2 = w1 @ [EvLog Info (MsgUsing c)]
           in case subprocess_popen E w2 cmd of
                Some e \<Rightarrow> (Inl e, w2 @ [EvPopen cmd (Some e)])
              | None \<Rightarrow>
                  (let w3 = w2 @ [EvPopen cmd None];
                       w4 = w3 @ map (\<lambda>l. EvLog Info (MsgLine (rstrip l)))
                                   (fst (child_stdout E w3))
                   in case snd (child_stdout E w3) of
                        Some e \<Rightarrow> (Inl e, w4 @ [EvStdoutEnd (Some e)])
                      | None \<Rightarrow>
                          (let rc = process_wait E (w4 @ [EvStdoutEnd None])
                           in (if rc \<noteq> 0 then Inl (CalledProcessError rc cmd) else Inr (),
                               w4 @ [EvStdoutEnd None, EvWait rc])))))"
  by (simp add: transfer_phase_def and_then_def Let_def log_info_def emit_def Popen_def
      relay_stdout_eq process_wait_call_def raise_exc_def return_val_def
      split: prod.splits sum.splits option.splits)

lemma transfer_phase_reaches_popen:
  assumes "find_pymdfu_executable E w = (Inr c, w1)"
  shows "\<exists>out rest. snd (transfer_phase E a w) =
           w1 @ EvLog Info (MsgUsing c) # EvPopen (build_command c a) out # rest"
  using assms by (auto simp: transfer_phase_cases Let_def split: option.splits)





subsection \<open>The paths through a whole attempt\<close>

lemma run_retry:
  assumes "retry a" and "image_path a \<noteq> []"
  shows "run_firmware_update E a w =
           transfer_phase E a (w @ [EvLog Info MsgRetry, EvSleep 500])"
  using assms by (simp add: run_firmware_update_def and_then_def modbus_phase_retry)

lemma run_auth_failure:
  assumes "image_path a \<noteq> []" and "\<not> retry a"
    and "NTNModbusMaster E (dev_id a) (port a) 115200 w = (Inr d, w1)"
    and "fst (set_registers E d 0x0000 (Some [0, 0, 0, 0]) w1) \<noteq> Inr True"
  shows "\<exists>e. run_firmware_update E a w =
          (Inl (RuntimeError ''Failed to set password or password invalid.''),
           w1 @ [EvExecute (password_clear (dev_id a)) (Inl e), EvLog Info (MsgExc e),
                 EvLog Info (MsgPasswordValid False)])"
proof -
  note c = NTNModbusMaster_returns[OF assms(3)]
  have w1: "w1 = connected a w" using c(3) by (simp add: connected_def)
  from assms(4) have "\<not> accepted (transport_execute E w1 (password_clear (dev_id a)))"
    by (simp add: set_registers_True_iff c(2) password_clear_def)
  then obtain e where
    e: "transport_execute E (connected a w) (password_clear (dev_id a)) = Inl e"
    using not_accepted w1 by blast
  have "modbus_phase E a w =
    (Inl (RuntimeError ''Failed to set password or password invalid.''),
     connected a w @ [EvExecute (password_clear (dev_id a)) (Inl e), EvLog Info (MsgExc e),
       EvLog Info (MsgPasswordValid False)])"
    by (rule modbus_phase_rejected[OF assms(2) c(1) e])
  then show ?thesis using assms(1) w1
    by (simp add: run_firmware_update_def and_then_def)
qed

lemma takeWhile_until: "list_ex P xs \<Longrightarrow> takeWhile (\<lambda>e. \<not> P e) (xs @ ys) = takeWhile (\<lambda>e. \<not> P e) xs"
  by (induction xs) auto

lemma run_unlocked:
  assumes "image_path a \<noteq> []" and "\<not> retry a"
    and "NTNModbusMaster E (dev_id a) (port a) 115200 w = (Inr d, w1)"
    and "fst (set_registers E d 0x0000 (Some [0, 0, 0, 0]) w1) = Inr True"
  shows "\<exists>es. snd (run_firmware_update E a w) = w @ es \<and>
          requests_of es = [password_clear (dev_id a), engineering_mode (dev_id a),
                            bootloader_mode (dev_id a), reset_mcu (dev_id a)] \<and>
          requests_of (takeWhile (\<lambda>e. \<not> is_close e) es) =
            [password_clear (dev_id a), engineering_mode (dev_id a),
             bootloader_mode (dev_id a), reset_mcu (dev_id a)]"
proof -
  note c = NTNModbusMaster_returns[OF assms(3)]
  have w1: "w1 = connected a w" using c(3) by (simp add: connected_def)
  from assms(4) have "accepted (transport_execute E w1 (password_clear (dev_id a)))"
    by (simp add: set_registers_True_iff c(2) password_clear_def)
  then obtain vs where
    "transport_execute E (connected a w) (password_clear (dev_id a)) = Inr vs"
    using is_accepted w1 by blast
  from modbus_phase_accepted[OF assms(2) c(1) this]
  obtain es1 where es1: "modbus_phase E a w = (Inr (), w @ es1)"
     "requests_of es1 = [password_clear (dev_id a), engineering_mode (dev_id a),
                          bootloader_mode (dev_id a), reset_mcu (dev_id a)]"
     "list_ex is_close es1"
     "requests_of (takeWhile (\<lambda>e. \<not> is_close e) es1) =
        [password_clear (dev_id a), engineering_mode (dev_id a),
         bootloader_mode (dev_id a), reset_mcu (dev_id a)]"
    by blast
  from only_transfer_phase[of E a] obtain es2 where
    es2: "snd (transfer_phase E a (w @ es1)) = (w @ es1) @ es2"
         "list_all (\<lambda>e. \<not> is_device_event e) es2"
    unfolding only_def by blast
  have "snd (run_firmware_update E a w) = w @ (es1 @ es2)"
    using assms(1) es1(1) es2(1) by (simp add: run_firmware_update_def and_then_def)
  moreover have "requests_of (es1 @ es2) =
      [password_clear (dev_id a), engineering_mode (dev_id a),
       bootloader_mode (dev_id a), reset_mcu (dev_id a)]"
    using es1(2) requests_of_quiet[OF es2(2)] by simp
  moreover have "requests_of (takeWhile (\<lambda>e. \<not> is_close e) (es1 @ es2)) =
      [password_clear (dev_id a), engineering_mode (dev_id a),
       bootloader_mode (dev_id a), reset_mcu (dev_id a)]"
    using es1(4) takeWhile_until[of is_close es1 es2, OF es1(3)] by simp
  ultimately show ?thesis by blast
qed

text \<open>Facts for evaluating a run in the simulated environment.\<close>

lemmas sim_simps = sim_def fw_args_def dongle_def accept_all_def reject_all_def the_cfg_def
  connected_def password_clear_def engineering_mode_def bootloader_mode_def reset_mcu_def
  accepted_def fault_log_def

lemmas run_simps = run_firmware_update_def modbus_phase_def transfer_phase_cases
  NTNModbusMaster_cases set_registers_Some set_register_Some close_Some
  find_pymdfu_executable_def return_if_found_def scripts_lookup_def probe_module_def
  build_command_def and_then_def try_except_def return_val_def raise_exc_def
  log_info_def log_error_def sleep_def emit_def run_call_def Let_def

section \<open>The unlock sequence\<close>

text \<open>
  C1: in a fresh attempt whose connection is established, when the password-clear write
  (four zero words to the password block) does not return \<open>True\<close>, the attempt ends with
  the RuntimeError of the failed password; the password-clear request is the only Modbus
  request of the attempt (no engineering-mode, bootloader-mode or reset write), and no
  child process has been started: neither the probe of the resolver nor the transfer.
\<close>

theorem password_failure_aborts_unlock:
  assumes "image_path a \<noteq> []" and "\<not> retry a"
    and "NTNModbusMaster E (dev_id a) (port a) 115200 w = (Inr d, w1)"
    and "fst (set_registers E d 0x0000 (Some [0, 0, 0, 0]) w1) \<noteq> Inr True"
  shows "\<exists>es. run_firmware_update E a w =
            (Inl (RuntimeError ''Failed to set password or password invalid.''), w @ es) \<and>
          requests_of es = [password_clear (dev_id a)] \<and>
          \<not> list_ex is_subprocess es"
proof -
  from run_auth_failure[OF assms] obtain e where
    "run_firmware_update E a w =
          (Inl (RuntimeError ''Failed to set password or password invalid.''),
           w1 @ [EvExecute (password_clear (dev_id a)) (Inl e), EvLog Info (MsgExc e),
                 EvLog Info (MsgPasswordValid False)])" by blast
  then show ?thesis using NTNModbusMaster_returns(3)[OF assms(3)] by simp
qed

text \<open>The device that never answers: one request, then the error.\<close>

theorem password_failure_aborts_unlock_witness:
  "NTNModbusMaster (sim reject_all ([], 0)) 1 ''/dev/ttyUSB0'' 115200 [] =
     (Inr dongle, connected (fw_args False) []) \<and>
   fst (set_registers (sim reject_all ([], 0)) dongle 0x0000 (Some [0, 0, 0, 0])
          (connected (fw_args False) [])) = Inr False \<and>
   (\<exists>es. run_firmware_update (sim reject_all ([], 0)) (fw_args False) [] =
            (Inl (RuntimeError ''Failed to set password or password invalid.''), es) \<and>
         requests_of es = [WriteReq 1 WRITE_MULTIPLE_REGISTERS 0 (PTuple [0, 0, 0, 0])] \<and>
         \<not> list_ex is_subprocess es)"
proof -
  have 1: "image_path (fw_args False) \<noteq> []" and 2: "\<not> retry (fw_args False)"
    by (simp_all add: fw_args_def)
  have 3: "NTNModbusMaster (sim reject_all ([], 0)) (dev_id (fw_args False))
             (port (fw_args False)) 115200 [] = (Inr dongle, connected (fw_args False) [])"
    by (simp add: NTNModbusMaster_cases sim_simps)
  have 4: "fst (set_registers (sim reject_all ([], 0)) dongle 0x0000 (Some [0, 0, 0, 0])
          (connected (fw_args False) [])) = Inr False"
    by (simp add: set_registers_Some sim_simps)
  then have 5: "fst (set_registers (sim reject_all ([], 0)) dongle 0x0000 (Some [0, 0, 0, 0])
          (connected (fw_args False) [])) \<noteq> Inr True" by simp
  from password_failure_aborts_unlock[OF 1 2 3 5] 3 4 show ?thesis
    by (simp add: fw_args_def password_clear_def)
qed

text \<open>
  C2: in a fresh attempt whose connection is established and whose password-clear write
  returns \<open>True\<close>, the Modbus requests of the attempt are exactly the four writes
  password-clear, engineering-mode, bootloader-mode, reset, in this order. The
  environment is arbitrary: whatever the device answers to the last three writes, and
  whatever happens afterwards, each of them is made.
\<close>

theorem unlock_writes_in_order:
  assumes "image_path a \<noteq> []" and "\<not> retry a"
    and "NTNModbusMaster E (dev_id a) (port a) 115200 w = (Inr d, w1)"
    and "fst (set_registers E d 0x0000 (Some [0, 0, 0, 0]) w1) = Inr True"
  shows "\<exists>es. snd (run_firmware_update E a w) = w @ es \<and>
          requests_of es =
            [WriteReq (dev_id a) WRITE_MULTIPLE_REGISTERS 0x0000 (PTuple [0, 0, 0, 0]),
             WriteReq (dev_id a) WRITE_SINGLE_REGISTER 0xFFD0 (PInt 0xAA55),
             WriteReq (dev_id a) WRITE_SINGLE_REGISTER 0xD000 (PInt 0xAA55),
             WriteReq (dev_id a) WRITE_SINGLE_REGISTER 0xFD00 (PInt 0xAA55)]"
  using run_unlocked[OF assms]
  by (auto simp: password_clear_def engineering_mode_def bootloader_mode_def reset_mcu_def)

text \<open>
  The device that accepts the password block and refuses every other write: the three
  mode writes are made all the same.
\<close>

theorem unlock_writes_in_order_witness:
  "fst (set_registers (sim password_only ([''done''], 0)) dongle 0x0000 (Some [0, 0, 0, 0])
          (connected (fw_args False) [])) = Inr True \<and>
   fst (set_register (sim password_only ([''done''], 0)) dongle 0xFFD0 (Some 0xAA55) []) =
     Inr False \<and>
   requests_of (snd (run_firmware_update (sim password_only ([''done''], 0)) (fw_args False) [])) =
     [WriteReq 1 WRITE_MULTIPLE_REGISTERS 0x0000 (PTuple [0, 0, 0, 0]),
      WriteReq 1 WRITE_SINGLE_REGISTER 0xFFD0 (PInt 0xAA55),
      WriteReq 1 WRITE_SINGLE_REGISTER 0xD000 (PInt 0xAA55),
      WriteReq 1 WRITE_SINGLE_REGISTER 0xFD00 (PInt 0xAA55)]"
proof -
  let ?E = "sim password_only ([''done''], 0)"
  have 1: "image_path (fw_args False) \<noteq> []" and 2: "\<not> retry (fw_args False)"
    by (simp_all add: fw_args_def)
  have 3: "NTNModbusMaster ?E (dev_id (fw_args False)) (port (fw_args False)) 115200 [] =
             (Inr dongle, connected (fw_args False) [])"
    by (simp add: NTNModbusMaster_cases sim_simps)
  have 4: "fst (set_registers ?E dongle 0x0000 (Some [0, 0, 0, 0])
          (connected (fw_args False) [])) = Inr True"
    by (simp add: set_registers_Some sim_simps)
  have 5: "fst (set_register ?E dongle 0xFFD0 (Some 0xAA55) []) = Inr False"
    by (simp add: set_register_Some sim_simps)
  from unlock_writes_in_order[OF 1 2 3 4] 4 5 show ?thesis
    by (auto simp: fw_args_def)
qed

section \<open>Retry mode\<close>

text \<open>
  C3: with the retry flag set and a non-empty image path, the attempt logs the retry
  message, sleeps half a second and goes on with the transfer part (lines 172-209).
  None of the events of the attempt is on the device's channel: no port is opened, no
  Modbus request (read or write) is made, nothing is closed. And once the command is
  resolved, the next effect after logging it is the start of the transfer process with
  the command built from it.
\<close>

theorem retry_skips_device:
  assumes "retry a" and "image_path a \<noteq> []"
  shows "run_firmware_update E a w =
           transfer_phase E a (w @ [EvLog Info MsgRetry, EvSleep 500]) \<and>
         (\<exists>es. snd (run_firmware_update E a w) = w @ [EvLog Info MsgRetry, EvSleep 500] @ es \<and>
               list_all (\<lambda>e. \<not> is_device_event e) es) \<and>
         (\<forall>c w1. find_pymdfu_executable E (w @ [EvLog Info MsgRetry, EvSleep 500]) = (Inr c, w1)
            \<longrightarrow> (\<exists>out rest. snd (run_firmware_update E a w) =
                   w1 @ EvLog Info (MsgUsing c) # EvPopen (build_command c a) out # rest))"
proof -
  note r = run_retry[OF assms, of E w]
  from only_transfer_phase[of E a] obtain es where
    "snd (transfer_phase E a (w @ [EvLog Info MsgRetry, EvSleep 500])) =
       (w @ [EvLog Info MsgRetry, EvSleep 500]) @ es"
    "list_all (\<lambda>e. \<not> is_device_event e) es"
    unfolding only_def by blast
  then have "\<exists>es. snd (run_firmware_update E a w) =
                 w @ [EvLog Info MsgRetry, EvSleep 500] @ es \<and>
               list_all (\<lambda>e. \<not> is_device_event e) es"
    using r by auto
  then show ?thesis using r transfer_phase_reaches_popen[of E _ _ _ a] by auto
qed

text \<open>A retry on the device that never answers: the device is not asked anything.\<close>

theorem retry_skips_device_witness:
  "run_firmware_update (sim reject_all ([''done''], 0)) (fw_args True) [] =
     (Inr (),
      [EvLog Info MsgRetry, EvSleep 500, EvLog Info (MsgUsing (CmdStr ''/usr/bin/pymdfu'')),
       EvPopen [''/usr/bin/pymdfu'', ''update'', ''--tool'', ''serial'', ''--port'',
                ''/dev/ttyUSB0'', ''--baudrate'', ''115200'', ''--image'', ''fw.bin'',
                ''-v'', ''debug''] None,
       EvLog Info (MsgLine ''done''), EvStdoutEnd None, EvWait 0])"
proof -
  let ?E = "sim reject_all ([''done''], 0)"
  have 1: "retry (fw_args True)" and 2: "image_path (fw_args True) \<noteq> []"
    by (simp_all add: fw_args_def)
  have "run_firmware_update ?E (fw_args True) [] =
          transfer_phase ?E (fw_args True) ([] @ [EvLog Info MsgRetry, EvSleep 500])"
    using retry_skips_device[OF 1 2, of ?E "[]"] by blast
  then show ?thesis
    by (simp add: transfer_phase_cases find_pymdfu_executable_def return_if_found_def
        build_command_def return_val_def is_space_def rstrip_def Let_def sim_simps)
qed

section \<open>The transfer invocation\<close>




section \<open>The register operations\<close>

text \<open>
  C5: a write whose value argument is \<open>None\<close> returns \<open>False\<close> and leaves the world as it
  was: no transport request is made (nor anything else), for \<open>set_register\<close> and for
  \<open>set_registers\<close>.
\<close>

theorem write_None_is_noop:
  "set_registers E self reg None w = (Inr False, w) \<and>
   set_register E self reg None w = (Inr False, w)"
  by (simp add: set_registers_def set_register_def try_except_def return_val_def)

text \<open>
  C6: a read returns \<open>None\<close> when the transport raises, and when every value the transport
  returns is zero; otherwise it returns what the transport returned: the tuple for
  \<open>read_registers\<close> (any count), the value for \<open>read_register\<close>, whose request asks for one
  register and is answered with one value. No read raises, whatever the transport
  answers (an empty answer to \<open>read_register\<close> is an IndexError, caught like the rest).
\<close>

theorem reads_absent_or_unchanged:
  "(transport_execute E w (ReadReq (slave_addr self) fc reg num) = Inl e \<longrightarrow>
      fst (read_registers E self reg num fc w) = Inr None) \<and>
   (transport_execute E w (ReadReq (slave_addr self) fc reg num) = Inr vals \<longrightarrow>
      fst (read_registers E self reg num fc w) =
        Inr (if list_all (\<lambda>x. x = 0) vals then None else Some vals)) \<and>
   (transport_execute E w (ReadReq (slave_addr self) fc reg 1) = Inl e \<longrightarrow>
      fst (read_register E self reg fc w) = Inr None) \<and>
   (transport_execute E w (ReadReq (slave_addr self) fc reg 1) = Inr [v] \<longrightarrow>
      fst (read_register E self reg fc w) = Inr (if v = 0 then None else Some v)) \<and>
   (\<exists>r. fst (read_register E self reg fc w) = Inr r) \<and>
   (\<exists>r. fst (read_registers E self reg num fc w) = Inr r)"
  by (auto simp: read_register_def read_registers_def try_except_def and_then_def
      master_execute_def Let_def subscript0_def return_val_def raise_exc_def log_info_def
      emit_def split: sum.splits list.splits)

text \<open>
  The device with readable registers: register 0 reads zero (absent), register 1 reads 7
  (returned as it is), register 2 cannot be read (absent).
\<close>

theorem reads_absent_or_unchanged_witness:
  "fst (read_registers (sim registers ([], 0)) dongle 2 3 READ_INPUT_REGISTERS []) = Inr None \<and>
   fst (read_registers (sim registers ([], 0)) dongle 0 3 READ_INPUT_REGISTERS []) = Inr None \<and>
   fst (read_registers (sim registers ([], 0)) dongle 1 3 READ_INPUT_REGISTERS []) =
     Inr (Some [7, 7, 7]) \<and>
   fst (read_register (sim registers ([], 0)) dongle 2 READ_INPUT_REGISTERS []) = Inr None \<and>
   fst (read_register (sim registers ([], 0)) dongle 0 READ_INPUT_REGISTERS []) = Inr None \<and>
   fst (read_register (sim registers ([], 0)) dongle 1 READ_INPUT_REGISTERS []) = Inr (Some 7)"
proof -
  let ?E = "sim registers ([], 0)"
  have f: "transport_execute ?E [] (ReadReq (slave_addr dongle) READ_INPUT_REGISTERS 2 3) =
             Inl (ModbusError 2)"
          "transport_execute ?E [] (ReadReq (slave_addr dongle) READ_INPUT_REGISTERS 2 1) =
             Inl (ModbusError 2)"
    by (simp_all add: sim_def)
  have z: "transport_execute ?E [] (ReadReq (slave_addr dongle) READ_INPUT_REGISTERS 0 3) =
             Inr [0, 0, 0]"
          "transport_execute ?E [] (ReadReq (slave_addr dongle) READ_INPUT_REGISTERS 0 1) =
             Inr [0]"
    by (simp_all add: sim_def numeral_3_eq_3)
  have s: "transport_execute ?E [] (ReadReq (slave_addr dongle) READ_INPUT_REGISTERS 1 3) =
             Inr [7, 7, 7]"
          "transport_execute ?E [] (ReadReq (slave_addr dongle) READ_INPUT_REGISTERS 1 1) =
             Inr [7]"
    by (simp_all add: sim_def numeral_3_eq_3)
  from reads_absent_or_unchanged[of ?E "[]" dongle READ_INPUT_REGISTERS 2 3 "ModbusError 2"]
       reads_absent_or_unchanged[of ?E "[]" dongle READ_INPUT_REGISTERS 0 3 _ "[0, 0, 0]" 0]
       reads_absent_or_unchanged[of ?E "[]" dongle READ_INPUT_REGISTERS 1 3 _ "[7, 7, 7]" 7]
       f z s
  show ?thesis by simp
qed

text \<open>
  C8, as the code has it: a multi-register write whose payload is the empty tuple is not
  a no-op. The payload is not \<open>None\<close>, so the request is made, with the empty payload;
  the write returns \<open>True\<close> when the transport accepts it and \<open>False\<close> (after logging the
  exception) when the transport raises.
\<close>

theorem empty_payload_is_written:
  "set_registers E self reg (Some []) w =
     (Inr (accepted (transport_execute E w
             (WriteReq (slave_addr self) WRITE_MULTIPLE_REGISTERS reg (PTuple [])))),
      w @ EvExecute (WriteReq (slave_addr self) WRITE_MULTIPLE_REGISTERS reg (PTuple []))
            (transport_execute E w
               (WriteReq (slave_addr self) WRITE_MULTIPLE_REGISTERS reg (PTuple []))) #
          fault_log (transport_execute E w
               (WriteReq (slave_addr self) WRITE_MULTIPLE_REGISTERS reg (PTuple []))))"
  by (simp add: set_registers_Some Let_def)

text \<open>
  C8 as it is stated fails: on the device that accepts everything, the write of an empty
  payload makes a request and returns \<open>True\<close>, so it is neither a no-op nor reported as
  a failure.
\<close>

theorem empty_payload_counterexample:
  "set_registers (sim accept_all ([], 0)) dongle 0 (Some []) [] =
     (Inr True, [EvExecute (WriteReq 1 WRITE_MULTIPLE_REGISTERS 0 (PTuple [])) (Inr [])])"
  by (simp add: set_registers_Some sim_simps)

text \<open>
  C9: a write of the value zero, or of a payload of zero words (as the four zeros of the
  password-clear write), is made like any other: when the transport accepts it, the
  request is the one effect of the call and the call returns \<open>True\<close>. A read, on the
  contrary, turns a zero into \<open>None\<close>.
\<close>

theorem zero_is_written:
  "(transport_execute E w (WriteReq (slave_addr self) WRITE_SINGLE_REGISTER reg (PInt 0)) =
      Inr vs \<longrightarrow>
    set_register E self reg (Some 0) w =
      (Inr True,
       w @ [EvExecute (WriteReq (slave_addr self) WRITE_SINGLE_REGISTER reg (PInt 0))
              (Inr vs)])) \<and>
   (transport_execute E w
        (WriteReq (slave_addr self) WRITE_MULTIPLE_REGISTERS reg (PTuple (replicate n 0))) =
      Inr vs \<longrightarrow>
    set_registers E self reg (Some (replicate n 0)) w =
      (Inr True,
       w @ [EvExecute (WriteReq (slave_addr self) WRITE_MULTIPLE_REGISTERS reg
                         (PTuple (replicate n 0))) (Inr vs)])) \<and>
   (transport_execute E w (ReadReq (slave_addr self) fc reg 1) = Inr [0] \<longrightarrow>
      fst (read_register E self reg fc w) = Inr None)"
  by (auto simp: set_register_Some set_registers_Some accepted_def fault_log_def
      read_register_def try_except_def and_then_def
      master_execute_def Let_def subscript0_def return_val_def)

text \<open>The password-clear write and a write of zero, on the device with registers.\<close>

theorem zero_is_written_witness:
  "set_register (sim registers ([], 0)) dongle 0 (Some 0) [] =
     (Inr True, [EvExecute (WriteReq 1 WRITE_SINGLE_REGISTER 0 (PInt 0)) (Inr [])]) \<and>
   set_registers (sim registers ([], 0)) dongle 0 (Some [0, 0, 0, 0]) [] =
     (Inr True, [EvExecute (WriteReq 1 WRITE_MULTIPLE_REGISTERS 0 (PTuple [0, 0, 0, 0]))
                   (Inr [])]) \<and>
   fst (read_register (sim registers ([], 0)) dongle 0 READ_INPUT_REGISTERS []) = Inr None"
proof -
  let ?E = "sim registers ([], 0)"
  have 1: "transport_execute ?E [] (WriteReq (slave_addr dongle) WRITE_SINGLE_REGISTER 0 (PInt 0)) =
             Inr []"
    and 2: "transport_execute ?E []
              (WriteReq (slave_addr dongle) WRITE_MULTIPLE_REGISTERS 0 (PTuple (replicate 4 0))) =
             Inr []"
    and 3: "transport_execute ?E [] (ReadReq (slave_addr dongle) READ_INPUT_REGISTERS 0 1) =
             Inr [0]"
    by (simp_all add: sim_def)
  have 4: "replicate 4 (0::int) = [0, 0, 0, 0]"
    by (simp add: numeral_Bit0)
  from zero_is_written[of ?E "[]" dongle 0 "[]" 4 READ_INPUT_REGISTERS] 1 2 3
  show ?thesis by (simp add: 4 dongle_def)
qed

section \<open>The attempt as a whole\<close>

text \<open>
  C7: an attempt whose image path is empty raises the ValueError of the missing path
  and leaves the world as it was: no port is opened, no request is made, nothing is
  logged or started. The retry flag plays no part.
\<close>

theorem empty_image_is_usage_fault:
  "image_path a = [] \<Longrightarrow>
   run_firmware_update E a w = (Inl (ValueError ''Missing firmware image file path''), w)"
  by (simp add: run_firmware_update_def raise_exc_def)

theorem empty_image_is_usage_fault_witness:
  "run_firmware_update (sim accept_all ([], 0)) ((fw_args False)\<lparr>image_path := []\<rparr>) [] =
     (Inl (ValueError ''Missing firmware image file path''), []) \<and>
   run_firmware_update (sim accept_all ([], 0)) ((fw_args True)\<lparr>image_path := []\<rparr>) [] =
     (Inl (ValueError ''Missing firmware image file path''), [])"
  using empty_image_is_usage_fault[of "(fw_args False)\<lparr>image_path := []\<rparr>" "sim accept_all ([], 0)" "[]"]
        empty_image_is_usage_fault[of "(fw_args True)\<lparr>image_path := []\<rparr>" "sim accept_all ([], 0)" "[]"]
  by simp

text \<open>
  C10: let \<open>es\<close> be the events of an attempt. If the attempt is a fresh one whose
  connection is established and whose password-clear write does not return \<open>True\<close>, then
  \<open>master.close()\<close> is not among them: the attempt ends without releasing the port. And
  in any attempt in which \<open>master.close()\<close> is called, the requests made before it are
  the four writes of the unlock sequence, all of them and in their order, and no
  request is made after it.
\<close>

theorem close_only_after_unlock:
  assumes "snd (run_firmware_update E a w) = w @ es"
  shows "(image_path a \<noteq> [] \<and> \<not> retry a \<and>
          NTNModbusMaster E (dev_id a) (port a) 115200 w = (Inr d, w1) \<and>
          fst (set_registers E d 0x0000 (Some [0, 0, 0, 0]) w1) \<noteq> Inr True
            \<longrightarrow> \<not> list_ex is_close es) \<and>
         (list_ex is_close es \<longrightarrow>
            requests_of (takeWhile (\<lambda>e. \<not> is_close e) es) =
              [password_clear (dev_id a), engineering_mode (dev_id a),
               bootloader_mode (dev_id a), reset_mcu (dev_id a)] \<and>
            requests_of es = [password_clear (dev_id a), engineering_mode (dev_id a),
                              bootloader_mode (dev_id a), reset_mcu (dev_id a)])"
proof (intro conjI impI)
  assume h: "image_path a \<noteq> [] \<and> \<not> retry a \<and>
          NTNModbusMaster E (dev_id a) (port a) 115200 w = (Inr d, w1) \<and>
          fst (set_registers E d 0x0000 (Some [0, 0, 0, 0]) w1) \<noteq> Inr True"
  then obtain e where "run_firmware_update E a w =
          (Inl (RuntimeError ''Failed to set password or password invalid.''),
           w1 @ [EvExecute (password_clear (dev_id a)) (Inl e), EvLog Info (MsgExc e),
                 EvLog Info (MsgPasswordValid False)])"
    using run_auth_failure[of a E w d w1] by blast
  moreover have "w1 = w @ [EvSerialOpen (the_cfg (port a) 115200) None, EvSetTimeout 1,
       EvSetVerbose False, EvLog Info MsgInit]"
    using h NTNModbusMaster_returns(3) by blast
  ultimately show "\<not> list_ex is_close es" using assms by auto
next
  assume cl: "list_ex is_close es"
  have ne: "image_path a \<noteq> []"
  proof
    assume "image_path a = []"
    with assms cl show False by (simp add: run_firmware_update_def raise_exc_def)
  qed
  have fresh: "\<not> retry a"
  proof
    assume r: "retry a"
    from only_transfer_phase[of E a] obtain es' where
      "snd (transfer_phase E a (w @ [EvLog Info MsgRetry, EvSleep 500])) =
         (w @ [EvLog Info MsgRetry, EvSleep 500]) @ es'"
      and q: "list_all (\<lambda>e. \<not> is_device_event e) es'"
      unfolding only_def by blast
    with assms run_retry[OF r ne, of E w]
    have "es = [EvLog Info MsgRetry, EvSleep 500] @ es'" by simp
    with cl is_close_quiet[OF q] show False by simp
  qed
  have both: "requests_of (takeWhile (\<lambda>e. \<not> is_close e) es) =
              [password_clear (dev_id a), engineering_mode (dev_id a),
               bootloader_mode (dev_id a), reset_mcu (dev_id a)] \<and>
        requests_of es = [password_clear (dev_id a), engineering_mode (dev_id a),
                              bootloader_mode (dev_id a), reset_mcu (dev_id a)]"
  proof (cases "serial_open E w (the_cfg (port a) 115200)")
    case (Some e)
    from modbus_phase_unconnected[OF fresh Some] assms ne cl show ?thesis
      by (auto simp: run_firmware_update_def and_then_def split: if_splits)
  next
    case None
    then have init: "NTNModbusMaster E (dev_id a) (port a) 115200 w =
        (Inr \<lparr>slave_addr = dev_id a, master = Some (the_cfg (port a) 115200)\<rparr>, connected a w)"
      by (simp add: NTNModbusMaster_cases connected_def)
    show ?thesis
    proof (cases "fst (set_registers E
                    \<lparr>slave_addr = dev_id a, master = Some (the_cfg (port a) 115200)\<rparr>
                    0x0000 (Some [0, 0, 0, 0]) (connected a w)) = Inr True")
      case True
      from run_unlocked[OF ne fresh init True] assms show ?thesis by auto
    next
      case False
      from run_auth_failure[OF ne fresh init False] assms cl show ?thesis
        by (auto simp: connected_def)
    qed
  qed
  from both show "requests_of (takeWhile (\<lambda>e. \<not> is_close e) es) =
              [password_clear (dev_id a), engineering_mode (dev_id a),
               bootloader_mode (dev_id a), reset_mcu (dev_id a)]" by blast
  from both show "requests_of es = [password_clear (dev_id a), engineering_mode (dev_id a),
                              bootloader_mode (dev_id a), reset_mcu (dev_id a)]" by blast
qed

text \<open>
  The device that never answers: the attempt fails and the port is not closed. The
  device that accepts everything: the port is closed, after the four writes.
\<close>

theorem close_only_after_unlock_witness:
  "\<not> list_ex is_close (snd (run_firmware_update (sim reject_all ([], 0)) (fw_args False) [])) \<and>
   list_ex is_close (snd (run_firmware_update (sim accept_all ([], 0)) (fw_args False) [])) \<and>
   requests_of (takeWhile (\<lambda>e. \<not> is_close e)
       (snd (run_firmware_update (sim accept_all ([], 0)) (fw_args False) []))) =
     [password_clear 1, engineering_mode 1, bootloader_mode 1, reset_mcu 1] \<and>
   requests_of (snd (run_firmware_update (sim accept_all ([], 0)) (fw_args False) [])) =
     [password_clear 1, engineering_mode 1, bootloader_mode 1, reset_mcu 1]"
proof -
  let ?E = "sim reject_all ([], 0)"
  let ?F = "sim accept_all ([], 0)"
  have 1: "image_path (fw_args False) \<noteq> [] \<and> \<not> retry (fw_args False) \<and>
     NTNModbusMaster ?E (dev_id (fw_args False)) (port (fw_args False)) 115200 [] =
       (Inr dongle, connected (fw_args False) []) \<and>
     fst (set_registers ?E dongle 0x0000 (Some [0, 0, 0, 0]) (connected (fw_args False) []))
       \<noteq> Inr True"
    by (simp add: NTNModbusMaster_cases set_registers_Some sim_simps)
  have 2: "list_ex is_close (snd (run_firmware_update ?F (fw_args False) []))"
    by (simp add: run_simps sim_simps)
  have 3: "dev_id (fw_args False) = 1" by (simp add: fw_args_def)
  from close_only_after_unlock[of ?E "fw_args False" "[]"
         "snd (run_firmware_update ?E (fw_args False) [])" dongle "connected (fw_args False) []"]
       close_only_after_unlock[of ?F "fw_args False" "[]"
         "snd (run_firmware_update ?F (fw_args False) [])"]
       1 2 3
  show ?thesis by simp
qed

end
